theory Spec2Isabelle
  imports Main "HOL-Library.List_Lexorder" "HOL-Library.Sublist" "HOL-Library.Multiset"
begin

section \<open>Python strings\<close>

text \<open>
  A Python \<open>str\<close> is a sequence of Unicode code points: slicing (\<open>s[:300]\<close>) counts code
  points and comparison (\<open>min\<close>, \<open>max\<close>, \<open>sort\<close>) is lexicographic on them.  A string
  is therefore a list of code points, and the order on strings is the lexicographic order
  of \<open>HOL-Library.List_Lexorder\<close>.  \<open>lit\<close> reads an ASCII literal; the decoration glyphs of
  the fixed texts are given by their code points.
\<close>

type_synonym pystr = "nat list"

definition lit :: "string \<Rightarrow> pystr" where
  "lit s = map of_char s"

definition nl :: pystr where
  "nl = [10]"

definition bullet :: pystr where
  "bullet = [8226]"

definition glyph_bar_chart :: pystr where
  "glyph_bar_chart = [128202]"

definition glyph_chart_up :: pystr where
  "glyph_chart_up = [128200]"

definition glyph_calendar :: pystr where
  "glyph_calendar = [128197]"

definition glyph_bulb :: pystr where
  "glyph_bulb = [128161]"

definition glyph_magnifier :: pystr where
  "glyph_magnifier = [128269]"

definition glyph_wrench :: pystr where
  "glyph_wrench = [128295]"

definition glyph_books :: pystr where
  "glyph_books = [128218]"

definition glyph_lock :: pystr where
  "glyph_lock = [128274]"

text \<open>
  \<open>str.lower\<close> and \<open>str.title\<close> on the ASCII letters; other code points are left as they
  are (all keywords of the program are ASCII).
\<close>

definition lower_cp :: "nat \<Rightarrow> nat" where
  "lower_cp c = (if 65 \<le> c \<and> c \<le> 90 then c + 32 else c)"

definition upper_cp :: "nat \<Rightarrow> nat" where
  "upper_cp c = (if 97 \<le> c \<and> c \<le> 122 then c - 32 else c)"

definition is_cased :: "nat \<Rightarrow> bool" where
  "is_cased c = ((65 \<le> c \<and> c \<le> 90) \<or> (97 \<le> c \<and> c \<le> 122))"

definition lower :: "pystr \<Rightarrow> pystr" where
  "lower s = map lower_cp s"

fun title_from :: "bool \<Rightarrow> pystr \<Rightarrow> pystr" where
  "title_from prev_cased [] = []"
| "title_from prev_cased (c # cs) =
     (if prev_cased then lower_cp c else upper_cp c) # title_from (is_cased c) cs"

definition title_case :: "pystr \<Rightarrow> pystr" where
  "title_case s = title_from False s"

text \<open>\<open>sub in s\<close> on strings is \<open>sublist sub s\<close>; \<open>sep.join(parts)\<close> is \<open>join sep parts\<close>.\<close>

fun join :: "pystr \<Rightarrow> pystr list \<Rightarrow> pystr" where
  "join sep [] = []"
| "join sep [x] = x"
| "join sep (x # y # ys) = x @ sep @ join sep (y # ys)"

text \<open>\<open>str(n)\<close> for an integer.\<close>

function str_nat :: "nat \<Rightarrow> pystr" where
  "str_nat n = (if n < 10 then [48 + n] else str_nat (n div 10) @ [48 + n mod 10])"
  by pat_completeness auto
termination
  by (relation "measure id") auto

declare str_nat.simps [simp del]

definition str_int :: "int \<Rightarrow> pystr" where
  "str_int i = (if i < 0 then lit ''-'' @ str_nat (nat (- i)) else str_nat (nat i))"

text \<open>
  \<open>sorted(xs, key=f)\<close> is the stable \<open>sort_key f xs\<close>.  With \<open>reverse=True\<close> Python
  sorts descending and still keeps records with equal keys in their original order:
  it reverses, sorts stably and reverses again.
\<close>

definition sort_reverse :: "('a \<Rightarrow> 'k::linorder) \<Rightarrow> 'a list \<Rightarrow> 'a list" where
  "sort_reverse f xs = rev (sort_key f (rev xs))"

text \<open>\<open>min\<close> and \<open>max\<close> of a non-empty list of strings.\<close>

fun py_min :: "pystr list \<Rightarrow> pystr" where
  "py_min [] = []"
| "py_min (x # xs) = fold min xs x"

fun py_max :: "pystr list \<Rightarrow> pystr" where
  "py_max [] = []"
| "py_max (x # xs) = fold max xs x"

section \<open>Data model\<close>

text \<open>
  An article record is a JSON object: \<open>title\<close> is read with \<open>article['title']\<close> and is
  required; every other field is read with \<open>article.get\<close> and may be absent (\<open>None\<close>).
  The entries of the technology index are records of the same kind that carry a title
  and a date.
\<close>

record article =
  title :: pystr
  date :: "pystr option"
  year :: "int option"
  tags :: "pystr list option"
  tech_stack :: "pystr list option"
  word_count :: "int option"
  content :: "pystr option"

text \<open>The technology index is a dict in insertion order: technology name to article list.\<close>

type_synonym tech_index = "(pystr \<times> article list) list"

text \<open>\<open>d.get(key, default)\<close>.\<close>

definition get_or :: "'a option \<Rightarrow> 'a \<Rightarrow> 'a" where
  "get_or v d = (case v of None \<Rightarrow> d | Some x \<Rightarrow> x)"

text \<open>Truth value of an optional string or integer argument (\<open>if tech:\<close>, \<open>if year:\<close>).\<close>

definition truthy_str :: "pystr option \<Rightarrow> bool" where
  "truthy_str v = (case v of None \<Rightarrow> False | Some s \<Rightarrow> s \<noteq> [])"

definition truthy_int :: "int option \<Rightarrow> bool" where
  "truthy_int v = (case v of None \<Rightarrow> False | Some i \<Rightarrow> i \<noteq> 0)"

text \<open>
  A result of the external retrieval service: \<open>metadata\<close> may be \<open>None\<close>, the score is a
  float of the abstract type \<open>'f\<close>.
\<close>

record 'f node_with_score =
  metadata :: "(pystr \<times> pystr) list option"
  score :: 'f
  node_text :: pystr

section \<open>Tools (app/tools.py)\<close>

subsection \<open>search_articles\<close>

text \<open>
  The retrieval call \<open>get_index().as_retriever(similarity_top_k=top_k).retrieve(query)\<close> is
  a parameter: it yields \<open>Inl msg\<close> when it raises an exception whose \<open>str\<close> is \<open>msg\<close>, and
  \<open>Inr results\<close> otherwise.  \<open>fmt_2f\<close> is the float format \<open>:.2f\<close>.
\<close>

definition format_result :: "('f \<Rightarrow> pystr) \<Rightarrow> nat \<times> 'f node_with_score \<Rightarrow> pystr list" where
  "format_result fmt_2f ir =
     (let i = fst ir; result = snd ir;
          md = get_or (metadata result) [];
          ttl = get_or (map_of md (lit ''title'')) (lit ''Unknown'')
      in [lit ''Result '' @ str_nat i @ lit '':'',
          lit ''Title: '' @ ttl,
          lit ''Relevance: '' @ fmt_2f (score result),
          lit ''Excerpt: '' @ take 300 (node_text result) @ lit ''...'',
          lit ''---''])"

definition search_articles ::
  "('f \<Rightarrow> pystr) \<Rightarrow> (pystr \<Rightarrow> int \<Rightarrow> pystr + 'f node_with_score list) \<Rightarrow> pystr \<Rightarrow> int \<Rightarrow> pystr" where
  "search_articles fmt_2f retrieve query top_k =
     (case retrieve query top_k of
        Inl e \<Rightarrow> lit ''LlamaCloud search unavailable ('' @ e
                  @ lit ''). Using local article metadata search instead.''
      | Inr results \<Rightarrow>
          if results = [] then lit ''No relevant articles found.''
          else join nl (concat (map (format_result fmt_2f)
                                   (zip [1 ..< Suc (length results)] results))))"

subsection \<open>filter_by_metadata\<close>

definition tech_match :: "pystr \<Rightarrow> article \<Rightarrow> bool" where
  "tech_match tech a = list_ex (\<lambda>t. sublist (lower tech) (lower t)) (get_or (tech_stack a) [])"

definition tag_match :: "pystr \<Rightarrow> article \<Rightarrow> bool" where
  "tag_match tag a = list_ex (\<lambda>t. sublist (lower tag) (lower t)) (get_or (tags a) [])"

text \<open>The body of the loop: \<open>True\<close> when no \<open>continue\<close> is taken and the article is appended.\<close>

definition keeps :: "pystr option \<Rightarrow> int option \<Rightarrow> pystr option \<Rightarrow> article \<Rightarrow> bool" where
  "keeps tech yr tag a =
     (if truthy_str tech \<and> \<not> tech_match (the tech) a then False
      else if truthy_int yr \<and> year a \<noteq> yr then False
      else if truthy_str tag \<and> \<not> tag_match (the tag) a then False
      else True)"

definition filter_matches ::
  "article list \<Rightarrow> pystr option \<Rightarrow> int option \<Rightarrow> pystr option \<Rightarrow> article list" where
  "filter_matches articles_manifest tech yr tag = filter (keeps tech yr tag) articles_manifest"

definition filter_entry :: "pystr option \<Rightarrow> article \<Rightarrow> pystr list" where
  "filter_entry tech a =
     [bullet @ lit '' '' @ title a,
      lit ''  Date: '' @ get_or (date a) (lit ''Unknown'')]
     @ (if truthy_str tech
        then [lit ''  Tech: '' @ join (lit '', '') (get_or (tech_stack a) [])] else [])
     @ [ [] ]"

text \<open>The text built from the list of matches, after the loop.\<close>

definition filter_text :: "pystr option \<Rightarrow> article list \<Rightarrow> pystr" where
  "filter_text tech matches =
     (if matches = [] then lit ''No articles found matching the criteria.''
      else join nl
        ([lit ''Found '' @ str_nat (length matches) @ lit '' matching articles:'' @ nl]
         @ concat (map (filter_entry tech) (take 10 matches))
         @ (if length matches > 10
            then [lit ''... and '' @ str_nat (length matches - 10) @ lit '' more'']
            else [])))"

definition filter_by_metadata ::
  "article list \<Rightarrow> pystr option \<Rightarrow> int option \<Rightarrow> pystr option \<Rightarrow> pystr" where
  "filter_by_metadata articles_manifest tech yr tag =
     filter_text tech (filter_matches articles_manifest tech yr tag)"

subsection \<open>analyze_tech_stack\<close>

definition matching_articles :: "tech_index \<Rightarrow> pystr \<Rightarrow> article list" where
  "matching_articles tech_index_data technology =
     concat (map snd (filter (\<lambda>(tech, article_list). sublist (lower technology) (lower tech))
                             tech_index_data))"

text \<open>The sort key \<open>x.get('date') or ''\<close>.\<close>

definition date_key :: "article \<Rightarrow> pystr" where
  "date_key x = get_or (date x) []"

definition sorted_articles :: "tech_index \<Rightarrow> pystr \<Rightarrow> article list" where
  "sorted_articles tech_index_data technology =
     sort_reverse date_key (matching_articles tech_index_data technology)"

definition tech_entry :: "article \<Rightarrow> pystr list" where
  "tech_entry a =
     [bullet @ lit '' '' @ title a,
      lit ''  Date: '' @ take 10 (get_or (date a) (lit ''Unknown'')),
      [] ]"

definition no_articles_text :: "pystr \<Rightarrow> pystr" where
  "no_articles_text technology =
     lit ''No articles found mentioning '' @ [39] @ technology @ [39] @ lit ''.''"

text \<open>The text built from the sorted list of matching articles.\<close>

definition analysis_text :: "pystr \<Rightarrow> article list \<Rightarrow> pystr" where
  "analysis_text technology arts =
     (let dates = map (\<lambda>a. the (date a)) (filter (\<lambda>a. truthy_str (date a)) arts)
      in join nl
        ([glyph_bar_chart @ lit '' Analysis for '' @ [39] @ technology @ [39] @ lit '':'' @ nl,
          lit ''Total articles: '' @ str_nat (length arts)]
         @ (if dates \<noteq> []
            then [lit ''First mention: '' @ take 10 (py_min dates),
                  lit ''Latest mention: '' @ take 10 (py_max dates)]
            else [])
         @ [nl @ lit ''Articles mentioning '' @ [39] @ technology @ [39] @ lit '':'' @ nl]
         @ concat (map tech_entry (take 5 arts))
         @ (if length arts > 5
            then [lit ''... and '' @ str_nat (length arts - 5) @ lit '' more articles'']
            else [])))"

definition analyze_tech_stack :: "tech_index \<Rightarrow> pystr \<Rightarrow> pystr" where
  "analyze_tech_stack tech_index_data technology =
     (if matching_articles tech_index_data technology = []
      then no_articles_text technology
      else analysis_text technology (sorted_articles tech_index_data technology))"

subsection \<open>find_content_gaps\<close>

definition tech_counts :: "tech_index \<Rightarrow> (pystr \<times> nat) list" where
  "tech_counts tech_index_data = map (\<lambda>(tech, articles). (tech, length articles)) tech_index_data"

definition sorted_tech :: "tech_index \<Rightarrow> (pystr \<times> nat) list" where
  "sorted_tech tech_index_data = sort_key snd (tech_counts tech_index_data)"

text \<open>\<open>year_counts[year] = year_counts.get(year, 0) + 1\<close> on a dict in insertion order.\<close>

fun bump :: "int \<Rightarrow> (int \<times> nat) list \<Rightarrow> (int \<times> nat) list" where
  "bump y [] = [(y, 1)]"
| "bump y ((k, c) # kcs) = (if k = y then (k, c + 1) # kcs else (k, c) # bump y kcs)"

definition year_counts :: "article list \<Rightarrow> (int \<times> nat) list" where
  "year_counts articles_manifest =
     fold (\<lambda>a yc. if truthy_int (year a) then bump (the (year a)) yc else yc) articles_manifest []"

definition recent_cutoff :: int where
  "recent_cutoff = 2023"

definition recent_articles :: "article list \<Rightarrow> article list" where
  "recent_articles articles_manifest =
     filter (\<lambda>a. get_or (year a) 0 \<ge> recent_cutoff) articles_manifest"

text \<open>
  The technologies for which the loop over \<open>sorted_tech[:10]\<close> emits a line, with their
  counts.
\<close>

definition limited_coverage :: "tech_index \<Rightarrow> (pystr \<times> nat) list" where
  "limited_coverage tech_index_data =
     filter (\<lambda>(tech, count). count < 3) (take 10 (sorted_tech tech_index_data))"

definition gap_line :: "pystr \<times> nat \<Rightarrow> pystr" where
  "gap_line tc = lit ''  '' @ bullet @ lit '' '' @ fst tc @ lit '': '' @ str_nat (snd tc)
                 @ lit '' article(s)''"

definition year_line :: "(int \<times> nat) list \<Rightarrow> int \<Rightarrow> pystr" where
  "year_line yc y = lit ''  '' @ bullet @ lit '' '' @ str_int y @ lit '': ''
                    @ str_nat (the (map_of yc y)) @ lit '' articles''"

definition find_content_gaps :: "article list \<Rightarrow> tech_index \<Rightarrow> pystr" where
  "find_content_gaps articles_manifest tech_index_data =
     (let yc = year_counts articles_manifest
      in join nl
        ([glyph_chart_up @ lit '' Content Gap Analysis'' @ nl,
          lit ''Total articles: '' @ str_nat (length articles_manifest),
          lit ''Articles since '' @ str_int recent_cutoff @ lit '': ''
            @ str_nat (length (recent_articles articles_manifest)) @ nl,
          lit ''Technologies with limited coverage (< 3 articles):'']
         @ map gap_line (limited_coverage tech_index_data)
         @ [nl @ glyph_calendar @ lit '' Publishing frequency by year:'']
         @ map (year_line yc) (sort (map fst yc))
         @ [nl @ glyph_bulb @ lit '' Recommendations:'',
            lit ''  '' @ bullet @ lit '' Consider deep dives on underserved technologies'',
            lit ''  '' @ bullet @ lit '' Update older popular articles'',
            lit ''  '' @ bullet
              @ lit '' Combine technologies you know well but haven't written about together'']))"

subsection \<open>get_full_article\<close>

definition title_matches :: "article list \<Rightarrow> pystr \<Rightarrow> article list" where
  "title_matches articles_manifest article_title =
     filter (\<lambda>a. sublist (lower article_title) (lower (title a))) articles_manifest"

definition get_full_article :: "article list \<Rightarrow> pystr \<Rightarrow> pystr" where
  "get_full_article articles_manifest article_title =
     (let matches = title_matches articles_manifest article_title
      in if matches = []
         then lit ''No article found with title containing '' @ [39] @ article_title @ [39]
         else if length matches > 1
         then lit ''Multiple matches found. Please be more specific:'' @ nl
              @ join nl (map (\<lambda>a. lit ''  '' @ bullet @ lit '' '' @ title a) (take 5 matches))
         else
           let article = hd matches
           in join nl
             ([lit ''Title: '' @ title article,
               lit ''Date: '' @ get_or (date article) (lit ''Unknown''),
               lit ''Tags: '' @ join (lit '', '') (get_or (tags article) []),
               lit ''Tech: '' @ join (lit '', '') (get_or (tech_stack article) []),
               lit ''Word count: '' @ str_int (get_or (word_count article) 0),
               nl @ lit ''--- Content ---'' @ nl,
               take 2000 (get_or (content article) [])]
              @ (if length (get_or (content article) []) > 2000
                 then [nl @ lit ''... (content truncated)''] else [])))"

section \<open>Workflows (app/workflows.py)\<close>

text \<open>
  A handler reads the catalog and calls the tools; \<open>env\<close> holds what the tools reach
  through module globals and the external service.  A handler returns the calls it made
  to the tools, in order, and the text of its \<open>StopEvent\<close>.
\<close>

record 'f env =
  fmt_2f :: "'f \<Rightarrow> pystr"
  retrieve :: "pystr \<Rightarrow> int \<Rightarrow> pystr + 'f node_with_score list"
  articles_manifest :: "article list"
  tech_index_data :: tech_index

datatype tool_call =
  SearchArticles pystr int
| FilterByMetadata "pystr option" "int option" "pystr option"
| AnalyzeTechStack pystr
| FindContentGaps
| GetFullArticle pystr

text \<open>\<open>any(word in query.lower() for word in words)\<close>.\<close>

definition any_word_in :: "string list \<Rightarrow> pystr \<Rightarrow> bool" where
  "any_word_in words query = list_ex (\<lambda>word. sublist (lit word) (lower query)) words"

subsection \<open>DiscoveryWorkflow.discover_articles\<close>

definition tech_keywords :: "string list" where
  "tech_keywords = [''python'', ''ai'', ''claude'', ''openai'', ''llamaindex'', ''react'', ''docker'']"

definition mentioned_tech :: "pystr \<Rightarrow> pystr list" where
  "mentioned_tech query =
     filter (\<lambda>tech. sublist (lower tech) (lower query)) (map lit tech_keywords)"

definition coverage_parts :: "tech_index \<Rightarrow> pystr \<Rightarrow> pystr list" where
  "coverage_parts idx tech =
     (let tech_analysis = analyze_tech_stack idx tech
      in if \<not> sublist (lit ''No articles found'') tech_analysis
         then [nl @ glyph_wrench @ lit '' **'' @ title_case tech @ lit '' Coverage:**'',
               tech_analysis]
         else [])"

definition discovery_menu :: "pystr list" where
  "discovery_menu =
     [lit ''I couldn't find specific matches for your query. Here are some ways I can help:'',
      bullet @ lit '' Ask about specific technologies (Python, AI, LlamaIndex, etc.)'',
      bullet @ lit '' Request articles from specific years'',
      bullet @ lit '' Search for topics like 'patent filing', 'AI workflows', or 'productivity''
        @ [39] ]"

definition discovery_note :: pystr where
  "discovery_note =
     nl @ glyph_books @ lit '' **Note:** I provide article summaries and teasers to help you discover interesting content. For full articles, visit the original Medium posts.''"

definition discover_articles :: "'f env \<Rightarrow> pystr \<Rightarrow> tool_call list \<times> pystr" where
  "discover_articles E query =
     (if query = [] then ([], lit ''Please provide a question about the articles.'')
      else
        let search_results = search_articles (fmt_2f E) (retrieve E) query 3;
            search_parts =
              (if \<not> sublist (lit ''No relevant articles found'') search_results
               then [glyph_magnifier @ lit '' **Search Results:**'', search_results]
               else []);
            techs = take 2 (mentioned_tech query);
            result_parts =
              search_parts @ concat (map (coverage_parts (tech_index_data E)) techs);
            result_parts' = (if result_parts = [] then discovery_menu else result_parts)
        in (SearchArticles query 3 # map AnalyzeTechStack techs,
            join nl (result_parts' @ [discovery_note])))"

subsection \<open>AnalyticsWorkflow.analyze_content\<close>

definition focus_parts :: "tech_index \<Rightarrow> pystr \<Rightarrow> pystr list" where
  "focus_parts idx tech =
     (let tech_analysis = analyze_tech_stack idx tech
      in if \<not> sublist (lit ''No articles found'') tech_analysis
         then [nl @ lit ''**'' @ tech @ lit '':**'', tech_analysis]
         else [])"

definition focus_techs :: "pystr list" where
  "focus_techs = map lit [''AI'', ''Claude'', ''Python'', ''LlamaIndex'', ''OpenAI'']"

definition analytics_header :: pystr where
  "analytics_header = glyph_bar_chart @ lit '' **Content Analytics Dashboard**'' @ nl"

definition analytics_footer :: pystr where
  "analytics_footer =
     nl @ glyph_lock @ lit '' **Private Mode:** Full analytics access with detailed content insights and strategic recommendations.''"

definition analyze_content :: "'f env \<Rightarrow> pystr \<Rightarrow> tool_call list \<times> pystr" where
  "analyze_content E query =
     (if query = []
      then ([], lit ''Please specify what type of analysis you'd like: content gaps, writing patterns, article performance, or strategy recommendations.'')
      else
        let gaps = find_content_gaps (articles_manifest E) (tech_index_data E);
            branch =
              (if any_word_in [''gap'', ''opportunity'', ''missing'', ''underserved''] query
               then ([FindContentGaps],
                     [lit ''**Content Gap Analysis:**'', gaps])
               else if any_word_in [''article'', ''content'', ''full'', ''detail''] query
               then ([SearchArticles query 5],
                     [lit ''**Article Search Results:**'',
                      search_articles (fmt_2f E) (retrieve E) query 5,
                      nl @ glyph_bulb @ lit '' **Tip:** To get full article content, ask for a specific article title.''])
               else if any_word_in [''pattern'', ''performance'', ''trend'', ''frequency''] query
               then ([FilterByMetadata None None None, FindContentGaps],
                     [lit ''**Writing Patterns Analysis:**'',
                      take 1000 (filter_by_metadata (articles_manifest E) None None None),
                      nl @ lit ''**Strategic Recommendations:**'',
                      gaps])
               else if any_word_in [''technology'', ''tech'', ''focus'', ''expertise''] query
               then (map AnalyzeTechStack focus_techs,
                     [lit ''**Technology Focus Analysis:**'']
                     @ concat (map (focus_parts (tech_index_data E)) focus_techs))
               else if any_word_in [''strategy'', ''next'', ''recommend'', ''suggest'', ''improve''] query
               then ([FindContentGaps],
                     [lit ''**Content Strategy Recommendations:**'',
                      gaps,
                      nl @ lit ''**Additional Strategic Insights:**'',
                      bullet @ lit '' Consider creating series on AI workflow automation'',
                      bullet @ lit '' Expand Python + AI integration tutorials'',
                      bullet @ lit '' Document more real-world AI implementation case studies'',
                      bullet @ lit '' Create beginner-friendly guides for identified technologies''])
               else ([FindContentGaps, SearchArticles query 3],
                     [lit ''**Comprehensive Content Overview:**'',
                      gaps,
                      nl @ lit ''**Query-Specific Results:**'',
                      search_articles (fmt_2f E) (retrieve E) query 3]))
        in (fst branch, join nl ([analytics_header] @ snd branch @ [analytics_footer])))"

section \<open>HTTP endpoint (simple_api.py)\<close>

text \<open>
  \<open>QueryRequest\<close> is the request model; \<open>parse_request\<close> builds it from the fields of the
  JSON body, filling in the default of a missing \<open>mode\<close>.
\<close>

record query_request =
  query :: pystr
  mode :: pystr

definition parse_request :: "pystr \<Rightarrow> pystr option \<Rightarrow> query_request" where
  "parse_request q m = \<lparr>query = q, mode = get_or m (lit ''discovery'')\<rparr>"

definition mode_prompt :: "query_request \<Rightarrow> pystr" where
  "mode_prompt request =
     (if mode request = lit ''discovery''
      then lit ''You are a discovery agent. Provide brief summaries and teasers about articles. Query: ''
           @ query request
      else if mode request = lit ''tech-explorer''
      then lit ''You are a tech explorer. Analyze technical expertise and technology patterns. Query: ''
           @ query request
      else if mode request = lit ''analytics''
      then lit ''You are an analytics agent. Provide detailed content analysis and strategy recommendations. Query: ''
           @ query request
      else query request)"

datatype chat_response =
  Success (response: pystr) (response_mode: pystr)
| Failure (error: pystr)

text \<open>
  \<open>query_engine\<close> stands for \<open>index.as_query_engine().query\<close>: \<open>Inl msg\<close> when it raises,
  \<open>Inr answer\<close> otherwise.  \<open>chat\<close> returns the prompt it forwarded and the response body.
\<close>

definition chat :: "(pystr \<Rightarrow> pystr + pystr) \<Rightarrow> query_request \<Rightarrow> pystr \<times> chat_response" where
  "chat query_engine request =
     (let prompt = mode_prompt request
      in (prompt,
          case query_engine prompt of
            Inl e \<Rightarrow> Failure e
          | Inr answer \<Rightarrow> Success answer (mode request)))"

section \<open>The catalog in memory\<close>

text \<open>
  \<open>articles_manifest\<close> is a list object and \<open>tech_index_data\<close> a dict whose values are list
  objects; Python passes lists by reference, and \<open>list.extend\<close>, \<open>list.append\<close> and
  \<open>list.sort\<close> change a list object in place.  The memory holds the list objects by
  address.  Article records are read only through \<open>get\<close> and \<open>[]\<close> and are kept as values.
\<close>

type_synonym store = "article list list"

record memory =
  manifest_obj :: nat
  index_obj :: "(pystr \<times> nat) list"
  objects :: store

definition manifest_of :: "memory \<Rightarrow> article list" where
  "manifest_of M = objects M ! manifest_obj M"

definition index_of :: "memory \<Rightarrow> tech_index" where
  "index_of M = map (\<lambda>(tech, a). (tech, objects M ! a)) (index_obj M)"

text \<open>Every address of the catalog is the address of an object.\<close>

definition well_formed :: "memory \<Rightarrow> bool" where
  "well_formed M \<longleftrightarrow>
     manifest_obj M < length (objects M)
     \<and> list_all (\<lambda>(tech, a). a < length (objects M)) (index_obj M)"

text \<open>\<open>xs = []\<close> makes a new list object; the three methods update the object at an address.\<close>

definition new_list :: "store \<Rightarrow> nat \<times> store" where
  "new_list h = (length h, h @ [ [] ])"

definition list_extend :: "nat \<Rightarrow> nat \<Rightarrow> store \<Rightarrow> store" where
  "list_extend m a h = h[m := h ! m @ h ! a]"

definition list_append :: "nat \<Rightarrow> article \<Rightarrow> store \<Rightarrow> store" where
  "list_append m x h = h[m := h ! m @ [x] ]"

definition list_sort_reverse :: "nat \<Rightarrow> (article \<Rightarrow> pystr) \<Rightarrow> store \<Rightarrow> store" where
  "list_sort_reverse m key h = h[m := sort_reverse key (h ! m)]"

text \<open>The loop of \<open>analyze_tech_stack\<close> over \<open>tech_index_data.items()\<close>.\<close>

fun extend_matching :: "pystr \<Rightarrow> nat \<Rightarrow> (pystr \<times> nat) list \<Rightarrow> store \<Rightarrow> store" where
  "extend_matching technology m [] h = h"
| "extend_matching technology m ((tech, article_list) # items) h =
     extend_matching technology m items
       (if sublist (lower technology) (lower tech) then list_extend m article_list h else h)"

definition analyze_tech_stack_mem :: "memory \<Rightarrow> pystr \<Rightarrow> pystr \<times> memory" where
  "analyze_tech_stack_mem M technology =
     (let (m, h0) = new_list (objects M);
          h1 = extend_matching technology m (index_obj M) h0
      in if h1 ! m = [] then (no_articles_text technology, M\<lparr>objects := h1\<rparr>)
         else
           let h2 = list_sort_reverse m date_key h1
           in (analysis_text technology (h2 ! m), M\<lparr>objects := h2\<rparr>))"

text \<open>The loop of \<open>filter_by_metadata\<close> over \<open>articles_manifest\<close>.\<close>

fun append_matches ::
  "pystr option \<Rightarrow> int option \<Rightarrow> pystr option \<Rightarrow> nat \<Rightarrow> article list \<Rightarrow> store \<Rightarrow> store" where
  "append_matches tech yr tag m [] h = h"
| "append_matches tech yr tag m (article # rest) h =
     append_matches tech yr tag m rest
       (if keeps tech yr tag article then list_append m article h else h)"

definition filter_by_metadata_mem ::
  "memory \<Rightarrow> pystr option \<Rightarrow> int option \<Rightarrow> pystr option \<Rightarrow> pystr \<times> memory" where
  "filter_by_metadata_mem M tech yr tag =
     (let (m, h0) = new_list (objects M);
          h1 = append_matches tech yr tag m (h0 ! manifest_obj M) h0
      in (filter_text tech (h1 ! m), M\<lparr>objects := h1\<rparr>))"

text \<open>
  \<open>find_content_gaps\<close> and \<open>get_full_article\<close> build their lists and dicts by
  comprehensions and \<open>sorted\<close>, which make new objects, and contain no statement that
  updates a list in place; \<open>search_articles\<close> does not reach the catalog.  \<open>run_tool\<close> runs
  one call of a query function on the memory.
\<close>

definition run_tool ::
  "('f \<Rightarrow> pystr) \<Rightarrow> (pystr \<Rightarrow> int \<Rightarrow> pystr + 'f node_with_score list) \<Rightarrow> memory \<Rightarrow> tool_call
   \<Rightarrow> pystr \<times> memory" where
  "run_tool fmt retr M call =
     (case call of
        SearchArticles q top_k \<Rightarrow> (search_articles fmt retr q top_k, M)
      | FilterByMetadata tech yr tag \<Rightarrow> filter_by_metadata_mem M tech yr tag
      | AnalyzeTechStack technology \<Rightarrow> analyze_tech_stack_mem M technology
      | FindContentGaps \<Rightarrow> (find_content_gaps (manifest_of M) (index_of M), M)
      | GetFullArticle article_title \<Rightarrow> (get_full_article (manifest_of M) article_title, M))"

section \<open>Example data\<close>

text \<open>A record that carries only a title.\<close>

definition art :: "pystr \<Rightarrow> article" where
  "art t = \<lparr>title = t, date = None, year = None, tags = None, tech_stack = None,
            word_count = None, content = None\<rparr>"

text \<open>
  In the examples a score is a number of hundredths, and \<open>hundredths\<close> writes it with two
  decimal places.
\<close>

definition hundredths :: "nat \<Rightarrow> pystr" where
  "hundredths n = str_nat (n div 100) @ lit ''.'' @ [48 + n div 10 mod 10, 48 + n mod 10]"

text \<open>An index with one technology, whose first article has no date.\<close>

definition demo_index :: tech_index where
  "demo_index =
     [(lit ''Python'',
       [art (lit ''A''), (art (lit ''B''))\<lparr>date := Some (lit ''2024-01-01'')\<rparr>])]"

text \<open>A service that finds nothing, and one whose search fails with a given message.\<close>

definition demo_env :: "nat env" where
  "demo_env = \<lparr>fmt_2f = hundredths, retrieve = (\<lambda>q k. Inr []),
                articles_manifest = [art (lit ''A''), art (lit ''B'')],
                tech_index_data = demo_index\<rparr>"

definition failing_env :: "pystr \<Rightarrow> nat env" where
  "failing_env msg = \<lparr>fmt_2f = hundredths, retrieve = (\<lambda>q k. Inl msg),
                        articles_manifest = [], tech_index_data = []\<rparr>"

text \<open>A query engine that answers with the prompt it is given.\<close>

definition echo_engine :: "pystr \<Rightarrow> pystr + pystr" where
  "echo_engine prompt = Inr prompt"

text \<open>
  A retrieval call that raises for the query "down", finds nothing for "nothing" and
  otherwise yields two results, the second without metadata.
\<close>

definition demo_results :: "nat node_with_score list" where
  "demo_results =
     [\<lparr>metadata = Some [(lit ''title'', lit ''AI Workflows'')], score = 85,
       node_text = lit ''This article explores''\<rparr>,
      \<lparr>metadata = None, score = 72, node_text = lit ''Learn how''\<rparr>]"

definition demo_retrieve :: "pystr \<Rightarrow> int \<Rightarrow> pystr + nat node_with_score list" where
  "demo_retrieve q k =
     (if q = lit ''down'' then Inl (lit ''timeout'')
      else if q = lit ''nothing'' then Inr []
      else Inr demo_results)"


text \<open>
  An index of eleven technologies with one article each, and one with the counts
  C: 5, B: 2, D: 3, A: 1.
\<close>

definition eleven_techs :: tech_index where
  "eleven_techs =
     map (\<lambda>t. (lit t, [art (lit ''A'')]))
       [''t01'', ''t02'', ''t03'', ''t04'', ''t05'', ''t06'', ''t07'', ''t08'', ''t09'', ''t10'',
        ''t11'']"

definition four_techs :: tech_index where
  "four_techs =
     [(lit ''C'', map (\<lambda>t. art (lit t)) [''c1'', ''c2'', ''c3'', ''c4'', ''c5'']),
      (lit ''B'', map (\<lambda>t. art (lit t)) [''b1'', ''b2'']),
      (lit ''D'', map (\<lambda>t. art (lit t)) [''d1'', ''d2'', ''d3'']),
      (lit ''A'', [art (lit ''a1'')])]"

text \<open>
  A memory with the manifest at address 0 and the lists of two technologies at the
  addresses 1 and 2.
\<close>

definition demo_memory :: memory where
  "demo_memory =
     \<lparr>manifest_obj = 0, index_obj = [(lit ''Python'', 1), (lit ''Docker'', 2)],
      objects = [ [art (lit ''A''), art (lit ''B'')],
                 [art (lit ''A''), (art (lit ''B''))\<lparr>date := Some (lit ''2024-01-01'')\<rparr>],
                 [art (lit ''A'')] ]\<rparr>"


section \<open>Properties of the tools\<close>

subsection \<open>analyze_tech_stack\<close>

lemma mset_sort_reverse: "mset (sort_reverse f xs) = mset xs"
  by (simp add: sort_reverse_def)

lemma sorted_sort_reverse: "sorted_wrt (\<lambda>a b. f a \<ge> f b) (sort_reverse f xs)"
proof -
  have "sorted (map f (sort_key f (rev xs)))"
    by (rule sorted_sort_key)
  then have "sorted_wrt (\<lambda>a b. f a \<le> f b) (sort_key f (rev xs))"
    by (simp add: sorted_wrt_map)
  then show ?thesis
    by (simp add: sort_reverse_def sorted_wrt_rev)
qed

lemma stable_sort_reverse:
  "filter (\<lambda>a. f a = k) (sort_reverse f xs) = filter (\<lambda>a. f a = k) xs"
proof -
  have "filter (\<lambda>a. f a = k) (sort_reverse f xs)
          = rev (filter (\<lambda>a. f a = k) (sort_key f (rev xs)))"
    by (simp add: sort_reverse_def rev_filter)
  also have "\<dots> = rev (filter (\<lambda>a. f a = k) (rev xs))"
    by (simp only: sort_key_stable)
  also have "\<dots> = filter (\<lambda>a. f a = k) xs"
    by (simp add: rev_filter)
  finally show ?thesis .
qed

lemma descending_least_last:
  fixes f :: "'a \<Rightarrow> 'k::linorder"
  assumes "sorted_wrt (\<lambda>a b. f a \<ge> f b) xs" and "\<And>k. l \<le> k"
  shows "xs = filter (\<lambda>a. f a \<noteq> l) xs @ filter (\<lambda>a. f a = l) xs"
  using assms(1)
proof (induction xs)
  case Nil
  then show ?case by simp
next
  case (Cons a xs)
  show ?case
  proof (cases "f a = l")
    case True
    with Cons.prems have "\<forall>b \<in> set xs. f b = l"
      using assms(2) by (auto intro: antisym)
    then have "filter (\<lambda>a. f a \<noteq> l) xs = []" "filter (\<lambda>a. f a = l) xs = xs"
      by (auto simp: filter_empty_conv filter_id_conv)
    with True show ?thesis by simp
  next
    case False
    with Cons show ?thesis by simp
  qed
qed


lemma Nil_least: "([]::pystr) \<le> k"
  by simp

text \<open>
  C3 (amended): the aggregated records are sorted by date, descending and stably: the
  sorted list is a permutation of the aggregated one, its keys never increase, and records
  with equal keys keep their order.  A missing date counts as the empty string, the least
  key, so the records without a date come last, after every dated record.  When the
  aggregated list is not empty, the articles listed are the first 5 of the sorted list.
\<close>

theorem analyze_tech_stack_sorted:
  "mset (sorted_articles idx t) = mset (matching_articles idx t)
   \<and> sorted_wrt (\<lambda>a b. date_key a \<ge> date_key b) (sorted_articles idx t)
   \<and> (\<forall>k. filter (\<lambda>a. date_key a = k) (sorted_articles idx t)
            = filter (\<lambda>a. date_key a = k) (matching_articles idx t))
   \<and> sorted_articles idx t =
       filter (\<lambda>a. date_key a \<noteq> []) (sorted_articles idx t)
       @ filter (\<lambda>a. date_key a = []) (matching_articles idx t)
   \<and> (matching_articles idx t \<noteq> [] \<longrightarrow>
        analyze_tech_stack idx t =
          (let arts = sorted_articles idx t;
               dates = map (\<lambda>a. the (date a)) (filter (\<lambda>a. truthy_str (date a)) arts)
           in join nl
             ([glyph_bar_chart @ lit '' Analysis for '' @ [39] @ t @ [39] @ lit '':'' @ nl,
               lit ''Total articles: '' @ str_nat (length arts)]
              @ (if dates \<noteq> []
                 then [lit ''First mention: '' @ take 10 (py_min dates),
                       lit ''Latest mention: '' @ take 10 (py_max dates)]
                 else [])
              @ [nl @ lit ''Articles mentioning '' @ [39] @ t @ [39] @ lit '':'' @ nl]
              @ concat (map tech_entry (take 5 arts))
              @ (if length arts > 5
                 then [lit ''... and '' @ str_nat (length arts - 5) @ lit '' more articles'']
                 else []))))"
proof (intro conjI allI impI)
  show "mset (sorted_articles idx t) = mset (matching_articles idx t)"
    by (simp add: sorted_articles_def mset_sort_reverse)
  show desc: "sorted_wrt (\<lambda>a b. date_key a \<ge> date_key b) (sorted_articles idx t)"
    unfolding sorted_articles_def by (rule sorted_sort_reverse)
  show stable: "filter (\<lambda>a. date_key a = k) (sorted_articles idx t)
            = filter (\<lambda>a. date_key a = k) (matching_articles idx t)" for k
    unfolding sorted_articles_def by (rule stable_sort_reverse)
  have "sorted_articles idx t =
       filter (\<lambda>a. date_key a \<noteq> []) (sorted_articles idx t)
       @ filter (\<lambda>a. date_key a = []) (sorted_articles idx t)"
    using desc Nil_least by (rule descending_least_last)
  then show "sorted_articles idx t =
       filter (\<lambda>a. date_key a \<noteq> []) (sorted_articles idx t)
       @ filter (\<lambda>a. date_key a = []) (matching_articles idx t)"
    by (simp only: stable)
qed (simp add: analyze_tech_stack_def analysis_text_def Let_def)

lemma demo_index_matching:
  "matching_articles demo_index (lit ''python'')
     = [art (lit ''A''), (art (lit ''B''))\<lparr>date := Some (lit ''2024-01-01'')\<rparr>]"
  by (simp add: matching_articles_def demo_index_def lit_def lower_def lower_cp_def)

lemma demo_index_sorted:
  "sorted_articles demo_index (lit ''python'')
     = [(art (lit ''B''))\<lparr>date := Some (lit ''2024-01-01'')\<rparr>, art (lit ''A'')]"
  unfolding sorted_articles_def demo_index_matching
  by (simp add: sort_reverse_def date_key_def art_def get_or_def lit_def)

theorem analyze_tech_stack_sorted_witness:
  "matching_articles demo_index (lit ''python'') \<noteq> []
   \<and> sorted_articles demo_index (lit ''python'')
       = [(art (lit ''B''))\<lparr>date := Some (lit ''2024-01-01'')\<rparr>, art (lit ''A'')]
   \<and> analyze_tech_stack demo_index (lit ''python'') =
       join nl
         [glyph_bar_chart @ lit '' Analysis for 'python':'' @ nl,
          lit ''Total articles: 2'',
          lit ''First mention: 2024-01-01'',
          lit ''Latest mention: 2024-01-01'',
          nl @ lit ''Articles mentioning 'python':'' @ nl,
          bullet @ lit '' B'', lit ''  Date: 2024-01-01'', [],
          bullet @ lit '' A'', lit ''  Date: Unknown'', [] ]"
proof -
  have ne: "matching_articles demo_index (lit ''python'') \<noteq> []"
    by (simp add: demo_index_matching)
  have s: "str_nat 2 = lit ''2''" "str_nat (Suc (Suc 0)) = lit ''2''"
    by (simp_all add: str_nat.simps lit_def)
  from analyze_tech_stack_sorted [of demo_index "lit ''python''"] ne
  have "analyze_tech_stack demo_index (lit ''python'') =
          (let arts = sorted_articles demo_index (lit ''python'');
               dates = map (\<lambda>a. the (date a)) (filter (\<lambda>a. truthy_str (date a)) arts)
           in join nl
             ([glyph_bar_chart @ lit '' Analysis for '' @ [39] @ lit ''python'' @ [39] @ lit '':'' @ nl,
               lit ''Total articles: '' @ str_nat (length arts)]
              @ (if dates \<noteq> []
                 then [lit ''First mention: '' @ take 10 (py_min dates),
                       lit ''Latest mention: '' @ take 10 (py_max dates)]
                 else [])
              @ [nl @ lit ''Articles mentioning '' @ [39] @ lit ''python'' @ [39] @ lit '':'' @ nl]
              @ concat (map tech_entry (take 5 arts))
              @ (if length arts > 5
                 then [lit ''... and '' @ str_nat (length arts - 5) @ lit '' more articles'']
                 else [])))"
    by blast
  then have "analyze_tech_stack demo_index (lit ''python'') =
       join nl
         [glyph_bar_chart @ lit '' Analysis for 'python':'' @ nl,
          lit ''Total articles: 2'',
          lit ''First mention: 2024-01-01'',
          lit ''Latest mention: 2024-01-01'',
          nl @ lit ''Articles mentioning 'python':'' @ nl,
          bullet @ lit '' B'', lit ''  Date: 2024-01-01'', [],
          bullet @ lit '' A'', lit ''  Date: Unknown'', [] ]"
    unfolding demo_index_sorted
    by (simp add: Let_def s art_def truthy_str_def tech_entry_def get_or_def) (simp add: lit_def)
  with ne demo_index_sorted show ?thesis by simp
qed

text \<open>
  C3 as stated fails: for the index \<open>Python: [A without date, B of 2024-01-01]\<close> and the
  technology "python" the sorted order is B, A: the record without a date is last, not
  first.
\<close>

theorem missing_dates_sort_last_counterexample:
  "sublist (lower (lit ''python'')) (lower (lit ''Python''))
   \<and> matching_articles demo_index (lit ''python'')
       = [art (lit ''A''), (art (lit ''B''))\<lparr>date := Some (lit ''2024-01-01'')\<rparr>]
   \<and> date (art (lit ''A'')) = None
   \<and> sorted_articles demo_index (lit ''python'')
       = [(art (lit ''B''))\<lparr>date := Some (lit ''2024-01-01'')\<rparr>, art (lit ''A'')]
   \<and> hd (sorted_articles demo_index (lit ''python'')) \<noteq> art (lit ''A'')
   \<and> last (sorted_articles demo_index (lit ''python'')) = art (lit ''A'')"
  by (simp add: demo_index_matching demo_index_sorted) (simp add: art_def lit_def lower_def lower_cp_def)
subsection \<open>find_content_gaps\<close>

lemma filter_take_sorted:
  fixes f :: "'a \<Rightarrow> 'k::linorder"
  assumes "sorted (map f xs)"
  shows "filter (\<lambda>a. f a < k) (take n xs) = take n (filter (\<lambda>a. f a < k) xs)"
  using assms
proof (induction xs arbitrary: n)
  case Nil
  then show ?case by simp
next
  case (Cons a xs)
  show ?case
  proof (cases n)
    case 0
    then show ?thesis by simp
  next
    case (Suc m)
    show ?thesis
    proof (cases "f a < k")
      case True
      with Cons Suc show ?thesis by simp
    next
      case False
      with Cons.prems have "\<forall>b \<in> set xs. \<not> f b < k"
        by auto
      then have "filter (\<lambda>a. f a < k) xs = []" "filter (\<lambda>a. f a < k) (take m xs) = []"
        by (auto simp: filter_empty_conv dest: in_set_takeD)
      with False Suc show ?thesis by simp
    qed
  qed
qed

lemma limited_coverage_eq:
  "limited_coverage idx = take 10 (filter (\<lambda>tc. snd tc < 3) (sorted_tech idx))"
proof -
  have "sorted (map snd (sorted_tech idx))"
    unfolding sorted_tech_def by (rule sorted_sort_key)
  then have "filter (\<lambda>tc. snd tc < 3) (take 10 (sorted_tech idx))
             = take 10 (filter (\<lambda>tc. snd tc < 3) (sorted_tech idx))"
    by (rule filter_take_sorted)
  then show ?thesis
    by (simp add: limited_coverage_def case_prod_unfold)
qed

lemma set_sorted_tech: "set (sorted_tech idx) = set (tech_counts idx)"
  by (simp add: sorted_tech_def)

lemma length_filter_sorted_tech:
  "length (filter P (sorted_tech idx)) = length (filter P (tech_counts idx))"
proof -
  have "mset (filter P (sorted_tech idx)) = mset (filter P (tech_counts idx))"
    by (simp add: sorted_tech_def)
  then show ?thesis
    by (metis size_mset)
qed

text \<open>
  C4 (amended): \<open>find_content_gaps\<close> flags only technologies with fewer than 3 articles,
  never one with 3 or more.  The flagged technologies are the first 10 of those with
  fewer than 3 articles, in ascending order of count (ties in index order); when at most
  10 technologies have fewer than 3 articles, exactly these are flagged.  For the counts
  C:5, B:2, D:3, A:1 the flagged ones are A and B.
\<close>

theorem limited_coverage_first_ten:
  "limited_coverage idx = take 10 (filter (\<lambda>tc. snd tc < 3) (sorted_tech idx))
   \<and> (\<forall>tc \<in> set (limited_coverage idx). snd tc < 3 \<and> tc \<in> set (tech_counts idx))
   \<and> (length (filter (\<lambda>tc. snd tc < 3) (tech_counts idx)) \<le> 10 \<longrightarrow>
        set (limited_coverage idx) = {tc \<in> set (tech_counts idx). snd tc < 3})
   \<and> find_content_gaps m idx =
       (let yc = year_counts m
        in join nl
          ([glyph_chart_up @ lit '' Content Gap Analysis'' @ nl,
            lit ''Total articles: '' @ str_nat (length m),
            lit ''Articles since '' @ str_int recent_cutoff @ lit '': ''
              @ str_nat (length (recent_articles m)) @ nl,
            lit ''Technologies with limited coverage (< 3 articles):'']
           @ map gap_line (limited_coverage idx)
           @ [nl @ glyph_calendar @ lit '' Publishing frequency by year:'']
           @ map (year_line yc) (sort (map fst yc))
           @ [nl @ glyph_bulb @ lit '' Recommendations:'',
              lit ''  '' @ bullet @ lit '' Consider deep dives on underserved technologies'',
              lit ''  '' @ bullet @ lit '' Update older popular articles'',
              lit ''  '' @ bullet
                @ lit '' Combine technologies you know well but haven't written about together'']))"
proof (intro conjI ballI impI)
  show eq: "limited_coverage idx = take 10 (filter (\<lambda>tc. snd tc < 3) (sorted_tech idx))"
    by (rule limited_coverage_eq)
  show "snd tc < 3" if "tc \<in> set (limited_coverage idx)" for tc
    using that by (auto simp: limited_coverage_def)
  show "tc \<in> set (tech_counts idx)" if "tc \<in> set (limited_coverage idx)" for tc
    using that set_sorted_tech [of idx] by (auto simp: limited_coverage_def dest: in_set_takeD)
  show "set (limited_coverage idx) = {tc \<in> set (tech_counts idx). snd tc < 3}"
    if "length (filter (\<lambda>tc. snd tc < 3) (tech_counts idx)) \<le> 10"
  proof -
    from that have "length (filter (\<lambda>tc. snd tc < 3) (sorted_tech idx)) \<le> 10"
      by (simp add: length_filter_sorted_tech)
    then have "limited_coverage idx = filter (\<lambda>tc. snd tc < 3) (sorted_tech idx)"
      by (simp add: eq)
    then show ?thesis
      by (auto simp: set_sorted_tech)
  qed
  show "find_content_gaps m idx =
       (let yc = year_counts m
        in join nl
          ([glyph_chart_up @ lit '' Content Gap Analysis'' @ nl,
            lit ''Total articles: '' @ str_nat (length m),
            lit ''Articles since '' @ str_int recent_cutoff @ lit '': ''
              @ str_nat (length (recent_articles m)) @ nl,
            lit ''Technologies with limited coverage (< 3 articles):'']
           @ map gap_line (limited_coverage idx)
           @ [nl @ glyph_calendar @ lit '' Publishing frequency by year:'']
           @ map (year_line yc) (sort (map fst yc))
           @ [nl @ glyph_bulb @ lit '' Recommendations:'',
              lit ''  '' @ bullet @ lit '' Consider deep dives on underserved technologies'',
              lit ''  '' @ bullet @ lit '' Update older popular articles'',
              lit ''  '' @ bullet
                @ lit '' Combine technologies you know well but haven't written about together'']))"
    by (simp add: find_content_gaps_def)
qed

lemma four_techs_counts:
  "tech_counts four_techs = [(lit ''C'', 5), (lit ''B'', 2), (lit ''D'', 3), (lit ''A'', 1)]"
  by (simp add: tech_counts_def four_techs_def)

theorem limited_coverage_first_ten_witness:
  "length (filter (\<lambda>tc. snd tc < 3) (tech_counts four_techs)) \<le> 10
   \<and> limited_coverage four_techs = [(lit ''A'', 1), (lit ''B'', 2)]
   \<and> set (limited_coverage four_techs) = {tc \<in> set (tech_counts four_techs). snd tc < 3}"
proof -
  have le: "length (filter (\<lambda>tc. snd tc < 3) (tech_counts four_techs)) \<le> 10"
    by (simp add: four_techs_counts)
  have lc: "limited_coverage four_techs = [(lit ''A'', 1), (lit ''B'', 2)]"
    by (simp add: limited_coverage_def sorted_tech_def four_techs_counts)
  show ?thesis
    using limited_coverage_first_ten [of four_techs] le lc by blast
qed

lemma eleven_techs_counts:
  "tech_counts eleven_techs =
     map (\<lambda>t. (lit t, 1))
       [''t01'', ''t02'', ''t03'', ''t04'', ''t05'', ''t06'', ''t07'', ''t08'', ''t09'', ''t10'',
        ''t11'']"
  by (simp add: tech_counts_def eleven_techs_def)

lemma eleven_techs_limited:
  "limited_coverage eleven_techs =
     map (\<lambda>t. (lit t, 1))
       [''t01'', ''t02'', ''t03'', ''t04'', ''t05'', ''t06'', ''t07'', ''t08'', ''t09'', ''t10'']"
  by (simp add: limited_coverage_def sorted_tech_def eleven_techs_counts)

lemma eleven_techs_text:
  "\<not> sublist (lit ''t11'') (find_content_gaps [] eleven_techs)"
  unfolding find_content_gaps_def eleven_techs_limited
  by (simp add: year_counts_def recent_articles_def recent_cutoff_def str_int_def str_nat.simps
      gap_line_def nl_def bullet_def glyph_chart_up_def glyph_calendar_def glyph_bulb_def lit_def
      sublist_Cons_right)

text \<open>
  C4 as stated fails: of eleven technologies with one article each, the eleventh has
  fewer than 3 articles and is not flagged: only the first 10 technologies of the order by
  count are examined, and the text does not mention it.
\<close>

theorem limited_coverage_cap_counterexample:
  "(lit ''t11'', 1) \<in> set (tech_counts eleven_techs)
   \<and> (1::nat) < 3
   \<and> (lit ''t11'', 1) \<notin> set (limited_coverage eleven_techs)
   \<and> length (limited_coverage eleven_techs) = 10
   \<and> \<not> sublist (lit ''t11'') (find_content_gaps [] eleven_techs)"
  using eleven_techs_text
  unfolding eleven_techs_limited eleven_techs_counts by (simp add: lit_def)
subsection \<open>search_articles\<close>





subsection \<open>filter_by_metadata\<close>




subsection \<open>The catalog is read only\<close>

lemma extend_matching_length: "length (extend_matching t m items h) = length h"
  by (induction t m items h rule: extend_matching.induct) (simp_all add: list_extend_def)

lemma extend_matching_other:
  "a \<noteq> m \<Longrightarrow> extend_matching t m items h ! a = h ! a"
  by (induction t m items h rule: extend_matching.induct) (simp_all add: list_extend_def)

lemma extend_matching_at:
  assumes "m < length h" and "\<forall>(k, a) \<in> set items. a \<noteq> m"
  shows "extend_matching t m items h ! m =
           h ! m @ concat (map (\<lambda>(k, a). h ! a)
                            (filter (\<lambda>(k, a). sublist (lower t) (lower k)) items))"
  using assms
proof (induction t m items h rule: extend_matching.induct)
  case (1 technology m h)
  then show ?case by simp
next
  case (2 technology m tech article_list items h)
  let ?h' = "if sublist (lower technology) (lower tech) then list_extend m article_list h else h"
  have len: "m < length ?h'"
    using 2 by (simp add: list_extend_def)
  have same: "\<forall>(k, a) \<in> set items. ?h' ! a = h ! a"
    using 2 by (auto simp: list_extend_def)
  then have meq:
    "map (\<lambda>(k, a). ?h' ! a) (filter (\<lambda>(k, a). sublist (lower technology) (lower k)) items)
     = map (\<lambda>(k, a). h ! a) (filter (\<lambda>(k, a). sublist (lower technology) (lower k)) items)"
    by (intro map_cong) auto
  have ih: "extend_matching technology m items ?h' ! m =
           ?h' ! m @ concat (map (\<lambda>(k, a). ?h' ! a)
                            (filter (\<lambda>(k, a). sublist (lower technology) (lower k)) items))"
    using 2 len by (intro "2.IH") auto
  have "extend_matching technology m ((tech, article_list) # items) h ! m
          = extend_matching technology m items ?h' ! m"
    by simp
  also have "\<dots> = ?h' ! m @ concat (map (\<lambda>(k, a). ?h' ! a)
                            (filter (\<lambda>(k, a). sublist (lower technology) (lower k)) items))"
    by (rule ih)
  also have "\<dots> = ?h' ! m @ concat (map (\<lambda>(k, a). h ! a)
                            (filter (\<lambda>(k, a). sublist (lower technology) (lower k)) items))"
    by (simp only: meq)
  also have "\<dots> = h ! m @ concat (map (\<lambda>(k, a). h ! a)
                 (filter (\<lambda>(k, a). sublist (lower technology) (lower k))
                    ((tech, article_list) # items)))"
    using "2.prems" by (simp add: list_extend_def)
  finally show ?case .
qed

lemma append_matches_length: "length (append_matches tech yr tag m xs h) = length h"
  by (induction tech yr tag m xs h rule: append_matches.induct) (simp_all add: list_append_def)

lemma append_matches_other:
  "a \<noteq> m \<Longrightarrow> append_matches tech yr tag m xs h ! a = h ! a"
  by (induction tech yr tag m xs h rule: append_matches.induct) (simp_all add: list_append_def)

lemma append_matches_at:
  "m < length h \<Longrightarrow>
   append_matches tech yr tag m xs h ! m = h ! m @ filter (keeps tech yr tag) xs"
  by (induction tech yr tag m xs h rule: append_matches.induct) (simp_all add: list_append_def)


lemma take_old_objects:
  assumes "length h \<le> length h'" and "\<And>a. a < length h \<Longrightarrow> h' ! a = h ! a"
  shows "take (length h) h' = h"
  using assms by (intro nth_equalityI) simp_all

lemma analyze_mem_frame:
  "manifest_obj (snd (analyze_tech_stack_mem M t)) = manifest_obj M
   \<and> index_obj (snd (analyze_tech_stack_mem M t)) = index_obj M
   \<and> length (objects (snd (analyze_tech_stack_mem M t))) = Suc (length (objects M))
   \<and> (\<forall>a < length (objects M). objects (snd (analyze_tech_stack_mem M t)) ! a = objects M ! a)"
  by (simp add: analyze_tech_stack_mem_def new_list_def list_sort_reverse_def Let_def
      extend_matching_length extend_matching_other nth_append)

lemma filter_mem_frame:
  "manifest_obj (snd (filter_by_metadata_mem M tech yr tag)) = manifest_obj M
   \<and> index_obj (snd (filter_by_metadata_mem M tech yr tag)) = index_obj M
   \<and> length (objects (snd (filter_by_metadata_mem M tech yr tag))) = Suc (length (objects M))
   \<and> (\<forall>a < length (objects M).
         objects (snd (filter_by_metadata_mem M tech yr tag)) ! a = objects M ! a)"
  by (simp add: filter_by_metadata_mem_def new_list_def Let_def
      append_matches_length append_matches_other nth_append)

lemma run_tool_frame:
  "manifest_obj (snd (run_tool fmt retr M call)) = manifest_obj M
   \<and> index_obj (snd (run_tool fmt retr M call)) = index_obj M
   \<and> length (objects M) \<le> length (objects (snd (run_tool fmt retr M call)))
   \<and> (\<forall>a < length (objects M). objects (snd (run_tool fmt retr M call)) ! a = objects M ! a)"
  using analyze_mem_frame [of M] filter_mem_frame [of M]
  by (cases call) (simp_all add: run_tool_def)

lemma matching_articles_index_of:
  "matching_articles (index_of M) t =
     concat (map (\<lambda>(k, a). objects M ! a)
               (filter (\<lambda>(k, a). sublist (lower t) (lower k)) (index_obj M)))"
  by (simp add: matching_articles_def index_of_def filter_map comp_def case_prod_unfold)

lemma analyze_mem_refines:
  assumes "well_formed M"
  shows "fst (analyze_tech_stack_mem M t) = analyze_tech_stack (index_of M) t"
proof -
  let ?m = "length (objects M)"
  let ?h0 = "objects M @ [ [] ]"
  let ?h1 = "extend_matching t ?m (index_obj M) ?h0"
  have addr: "\<forall>(k, a) \<in> set (index_obj M). a < ?m"
    using assms by (auto simp: well_formed_def list_all_iff)
  then have ne: "\<forall>(k, a) \<in> set (index_obj M). a \<noteq> ?m"
    by auto
  have "?h1 ! ?m = ?h0 ! ?m @ concat (map (\<lambda>(k, a). ?h0 ! a)
                            (filter (\<lambda>(k, a). sublist (lower t) (lower k)) (index_obj M)))"
    using ne by (intro extend_matching_at) simp_all
  also have "map (\<lambda>(k, a). ?h0 ! a) (filter (\<lambda>(k, a). sublist (lower t) (lower k)) (index_obj M))
           = map (\<lambda>(k, a). objects M ! a)
               (filter (\<lambda>(k, a). sublist (lower t) (lower k)) (index_obj M))"
    using addr by (intro map_cong) (auto simp: nth_append)
  finally have h1: "?h1 ! ?m = matching_articles (index_of M) t"
    by (simp add: matching_articles_index_of)
  have len: "?m < length ?h1"
    by (simp add: extend_matching_length)
  show ?thesis
    using h1 len
    by (simp add: analyze_tech_stack_mem_def analyze_tech_stack_def new_list_def Let_def
        list_sort_reverse_def sorted_articles_def)
qed

lemma filter_mem_refines:
  assumes "well_formed M"
  shows "fst (filter_by_metadata_mem M tech yr tag)
           = filter_by_metadata (manifest_of M) tech yr tag"
proof -
  have "manifest_obj M < length (objects M)"
    using assms by (simp add: well_formed_def)
  then show ?thesis
    by (simp add: filter_by_metadata_mem_def filter_by_metadata_def new_list_def Let_def
        append_matches_at nth_append manifest_of_def filter_matches_def)
qed

text \<open>
  C8: every call of a query function leaves the catalog unchanged.  The addresses of the
  manifest and of the index lists stay the same, and every list object that existed before
  the call has the same content, in the same order, after it; so the manifest and the
  technology index read from a well-formed memory are equal before and after the call.
  \<open>analyze_tech_stack\<close> extends and sorts a list object that it has made itself: after
  the call the memory is the old memory followed by that one new object.  On a
  well-formed memory the functions with in-place updates return what the functions on
  the catalog values return.
\<close>

theorem query_functions_read_only:
  "manifest_obj (snd (run_tool fmt retr M call)) = manifest_obj M
   \<and> index_obj (snd (run_tool fmt retr M call)) = index_obj M
   \<and> take (length (objects M)) (objects (snd (run_tool fmt retr M call))) = objects M
   \<and> (well_formed M \<longrightarrow>
        manifest_of (snd (run_tool fmt retr M call)) = manifest_of M
        \<and> index_of (snd (run_tool fmt retr M call)) = index_of M
        \<and> well_formed (snd (run_tool fmt retr M call))
        \<and> fst (run_tool fmt retr M (AnalyzeTechStack t)) = analyze_tech_stack (index_of M) t
        \<and> fst (run_tool fmt retr M (FilterByMetadata tech yr tag))
            = filter_by_metadata (manifest_of M) tech yr tag)
   \<and> (\<exists>l. objects (snd (run_tool fmt retr M (AnalyzeTechStack t))) = objects M @ [l])"
proof -
  let ?M' = "snd (run_tool fmt retr M call)"
  note frame = run_tool_frame [of fmt retr M call]
  have tk: "take (length (objects M)) (objects ?M') = objects M"
    using frame by (intro take_old_objects) simp_all
  have wf: "manifest_of ?M' = manifest_of M \<and> index_of ?M' = index_of M \<and> well_formed ?M'"
    if "well_formed M"
  proof -
    have "manifest_obj M < length (objects M)"
      and addr: "\<forall>(k, a) \<in> set (index_obj M). a < length (objects M)"
      using that by (auto simp: well_formed_def list_all_iff)
    then have "manifest_of ?M' = manifest_of M"
      using frame by (simp add: manifest_of_def)
    moreover have "index_of ?M' = index_of M"
      unfolding index_of_def using frame addr by (auto intro!: map_cong)
    moreover have "well_formed ?M'"
      using frame that by (auto simp: well_formed_def list_all_iff)
    ultimately show ?thesis by simp
  qed
  have fresh: "\<exists>l. objects (snd (run_tool fmt retr M (AnalyzeTechStack t))) = objects M @ [l]"
  proof -
    let ?h = "objects (snd (analyze_tech_stack_mem M t))"
    have "take (length (objects M)) ?h = objects M"
      using analyze_mem_frame [of M t] by (intro take_old_objects) simp_all
    moreover have "length ?h = Suc (length (objects M))"
      using analyze_mem_frame [of M t] by simp
    ultimately have "?h = objects M @ [last ?h]"
      by (metis append_butlast_last_id butlast_conv_take diff_Suc_1 length_0_conv nat.distinct(1))
    then show ?thesis
      by (auto simp: run_tool_def)
  qed
  show ?thesis
    using frame tk wf fresh analyze_mem_refines [of M t] filter_mem_refines [of M tech yr tag]
    by (simp add: run_tool_def)
qed

lemma demo_memory_wf: "well_formed demo_memory"
  by (simp add: well_formed_def demo_memory_def)

theorem query_functions_read_only_witness:
  "well_formed demo_memory
   \<and> index_of (snd (run_tool hundredths demo_retrieve demo_memory (AnalyzeTechStack (lit ''python''))))
       = index_of demo_memory
   \<and> index_of demo_memory =
       [(lit ''Python'', [art (lit ''A''), (art (lit ''B''))\<lparr>date := Some (lit ''2024-01-01'')\<rparr>]),
        (lit ''Docker'', [art (lit ''A'')])]
   \<and> objects (snd (run_tool hundredths demo_retrieve demo_memory (AnalyzeTechStack (lit ''python''))))
       = objects demo_memory
         @ [ [(art (lit ''B''))\<lparr>date := Some (lit ''2024-01-01'')\<rparr>, art (lit ''A'')] ]"
proof -
  have idx: "index_of demo_memory =
       [(lit ''Python'', [art (lit ''A''), (art (lit ''B''))\<lparr>date := Some (lit ''2024-01-01'')\<rparr>]),
        (lit ''Docker'', [art (lit ''A'')])]"
    by (simp add: index_of_def demo_memory_def)
  have obj: "objects (snd (run_tool hundredths demo_retrieve demo_memory
                             (AnalyzeTechStack (lit ''python''))))
       = objects demo_memory
         @ [ [(art (lit ''B''))\<lparr>date := Some (lit ''2024-01-01'')\<rparr>, art (lit ''A'')] ]"
    by (simp add: run_tool_def analyze_tech_stack_mem_def new_list_def list_extend_def
        list_sort_reverse_def sort_reverse_def date_key_def get_or_def art_def Let_def
        demo_memory_def lit_def lower_def lower_cp_def sublist_Cons_right)
  show ?thesis
    using query_functions_read_only
      [of hundredths demo_retrieve demo_memory "AnalyzeTechStack (lit ''python'')"]
      demo_memory_wf idx obj
    by simp
qed
subsection \<open>get_full_article\<close>

lemma title_matches_empty: "title_matches m [] = m"
  by (simp add: title_matches_def lower_def)

text \<open>
  C10: with the empty string as title query every article matches; with two or more
  articles in the catalog the result is the disambiguation list of the first (at most 5)
  titles, never an article's content; with exactly one article it is that article's
  full rendering.
\<close>

theorem get_full_article_empty_title:
  "title_matches m [] = m
   \<and> (2 \<le> length m \<longrightarrow>
        get_full_article m [] =
          lit ''Multiple matches found. Please be more specific:'' @ nl
          @ join nl (map (\<lambda>a. lit ''  '' @ bullet @ lit '' '' @ title a) (take 5 m))
        \<and> length (take 5 m) \<le> 5)
   \<and> get_full_article [a] [] =
        join nl
          ([lit ''Title: '' @ title a,
            lit ''Date: '' @ get_or (date a) (lit ''Unknown''),
            lit ''Tags: '' @ join (lit '', '') (get_or (tags a) []),
            lit ''Tech: '' @ join (lit '', '') (get_or (tech_stack a) []),
            lit ''Word count: '' @ str_int (get_or (word_count a) 0),
            nl @ lit ''--- Content ---'' @ nl,
            take 2000 (get_or (content a) [])]
           @ (if length (get_or (content a) []) > 2000
              then [nl @ lit ''... (content truncated)''] else []))"
proof (intro conjI impI)
  show "title_matches m [] = m" by (rule title_matches_empty)
next
  assume "2 \<le> length m"
  then have "m \<noteq> []" "length m > 1" by auto
  then show "get_full_article m [] =
          lit ''Multiple matches found. Please be more specific:'' @ nl
          @ join nl (map (\<lambda>a. lit ''  '' @ bullet @ lit '' '' @ title a) (take 5 m))"
    by (simp add: get_full_article_def title_matches_empty Let_def)
next
  show "length (take 5 m) \<le> 5" by simp
next
  show "get_full_article [a] [] =
        join nl
          ([lit ''Title: '' @ title a,
            lit ''Date: '' @ get_or (date a) (lit ''Unknown''),
            lit ''Tags: '' @ join (lit '', '') (get_or (tags a) []),
            lit ''Tech: '' @ join (lit '', '') (get_or (tech_stack a) []),
            lit ''Word count: '' @ str_int (get_or (word_count a) 0),
            nl @ lit ''--- Content ---'' @ nl,
            take 2000 (get_or (content a) [])]
           @ (if length (get_or (content a) []) > 2000
              then [nl @ lit ''... (content truncated)''] else []))"
    by (simp add: get_full_article_def title_matches_empty Let_def)
qed

theorem get_full_article_empty_title_witness:
  "2 \<le> length [art (lit ''A''), art (lit ''B'')]
   \<and> get_full_article [art (lit ''A''), art (lit ''B'')] [] =
     lit ''Multiple matches found. Please be more specific:'' @ nl
     @ lit ''  '' @ bullet @ lit '' A'' @ nl @ lit ''  '' @ bullet @ lit '' B''"
  using get_full_article_empty_title [of "[art (lit ''A''), art (lit ''B'')]" "art (lit ''A'')"]
  by (simp add: art_def lit_def)
section \<open>Properties of the workflows and the endpoint\<close>

subsection \<open>AnalyticsWorkflow\<close>

lemma any_word_in_nonempty: "any_word_in ws q \<Longrightarrow> [] \<notin> set ws \<Longrightarrow> q \<noteq> []"
  by (auto simp: any_word_in_def list_ex_iff lower_def lit_def)

text \<open>
  C1: when a keyword of the gap group and a keyword of the strategy group both occur in
  the lowered query, the Analytics handler takes the first branch of its chain only: its
  one tool call is \<open>find_content_gaps\<close> and its text is the dashboard header, the
  "Content Gap Analysis" heading, the gap analysis and the footer; nothing of the
  strategy branch is produced.
\<close>

theorem analytics_gap_branch_first:
  assumes gap: "any_word_in [''gap'', ''opportunity'', ''missing'', ''underserved''] q"
    and strategy: "any_word_in [''strategy'', ''next'', ''recommend'', ''suggest'', ''improve''] q"
  shows "analyze_content E q =
           ([FindContentGaps],
            join nl [analytics_header,
                     lit ''**Content Gap Analysis:**'',
                     find_content_gaps (articles_manifest E) (tech_index_data E),
                     analytics_footer])"
proof -
  have "q \<noteq> []"
    using gap by (rule any_word_in_nonempty) simp
  then show ?thesis
    using gap by (simp add: analyze_content_def Let_def)
qed

lemma gap_strategy_gap:
  "any_word_in [''gap'', ''opportunity'', ''missing'', ''underserved''] (lit ''gap strategy'')"
  by (simp add: any_word_in_def lit_def lower_def lower_cp_def)

lemma gap_strategy_strategy:
  "any_word_in [''strategy'', ''next'', ''recommend'', ''suggest'', ''improve''] (lit ''gap strategy'')"
  by (simp add: any_word_in_def lit_def lower_def lower_cp_def sublist_Cons_right)

theorem analytics_gap_branch_first_witness:
  "any_word_in [''gap'', ''opportunity'', ''missing'', ''underserved''] (lit ''gap strategy'')
   \<and> any_word_in [''strategy'', ''next'', ''recommend'', ''suggest'', ''improve''] (lit ''gap strategy'')
   \<and> fst (analyze_content demo_env (lit ''gap strategy'')) = [FindContentGaps]"
  using analytics_gap_branch_first [OF gap_strategy_gap gap_strategy_strategy, of demo_env]
    gap_strategy_gap gap_strategy_strategy
  by simp


subsection \<open>DiscoveryWorkflow\<close>







subsection \<open>DiscoveryWorkflow and a failing search\<close>

lemma sublist_tail_part:
  assumes sub: "sublist xs (e @ B)"
    and notB: "\<not> sublist xs B"
    and hdB: "B \<noteq> []" "hd B \<notin> set xs"
  shows "sublist xs e"
proof -
  from sub notB consider "sublist xs e"
    | xs1 xs2 where "xs = xs1 @ xs2" "suffix xs1 e" "prefix xs2 B"
    by (auto simp: sublist_append)
  then show ?thesis
  proof cases
    case 1
    then show ?thesis .
  next
    case 2
    show ?thesis
    proof (cases xs2)
      case Nil
      with 2 show ?thesis by (auto intro: suffix_imp_sublist)
    next
      case (Cons y ys)
      with 2(3) hdB(1) have "hd B = y"
        by (cases B) (auto simp: prefix_def)
      with Cons 2(1) hdB(2) show ?thesis by auto
    qed
  qed
qed

lemma sublist_sandwich:
  assumes sub: "sublist (n # ns) (A @ e @ B)"
    and nA: "n \<notin> set A" and nB: "n \<notin> set B"
    and hdB: "B \<noteq> []" "hd B \<notin> set (n # ns)"
  shows "sublist (n # ns) e"
proof -
  have notA: "\<not> sublist (n # ns) A"
    using nA set_mono_sublist by fastforce
  have notB: "\<not> sublist (n # ns) B"
    using nB set_mono_sublist by fastforce
  from sub notA consider "sublist (n # ns) (e @ B)"
    | xs1 xs2 where "n # ns = xs1 @ xs2" "suffix xs1 A" "prefix xs2 (e @ B)"
    by (auto simp: sublist_append)
  then have "sublist (n # ns) (e @ B)"
  proof cases
    case 1
    then show ?thesis .
  next
    case 2
    show ?thesis
    proof (cases xs1)
      case Nil
      with 2 show ?thesis by auto
    next
      case (Cons y ys)
      with 2(1) have "n \<in> set xs1" by auto
      with 2(2) nA show ?thesis
        using set_mono_suffix by fastforce
    qed
  qed
  then show ?thesis
    using notB hdB by (rule sublist_tail_part)
qed

lemma fallback_no_marker:
  assumes "\<not> sublist (lit ''No relevant articles found'') e"
  shows "\<not> sublist (lit ''No relevant articles found'')
           (lit ''LlamaCloud search unavailable ('' @ e
            @ lit ''). Using local article metadata search instead.'')"
proof
  assume "sublist (lit ''No relevant articles found'')
           (lit ''LlamaCloud search unavailable ('' @ e
            @ lit ''). Using local article metadata search instead.'')"
  then have "sublist (lit ''No relevant articles found'') e"
    unfolding lit_def list.map
    by (rule sublist_sandwich) simp_all
  with assms show False by simp
qed


text \<open>
  C9 (amended): when the search call fails with a message that does not itself contain
  "No relevant articles found", the fallback string does not contain it either, and for
  every non-empty query the Discovery handler presents the fallback string under the
  "Search Results" heading.
\<close>

theorem discovery_shows_fallback:
  assumes "q \<noteq> []"
    and "retrieve E q 3 = Inl e"
    and "\<not> sublist (lit ''No relevant articles found'') e"
  shows "snd (discover_articles E q) =
           join nl
             ([glyph_magnifier @ lit '' **Search Results:**'',
               lit ''LlamaCloud search unavailable ('' @ e
                 @ lit ''). Using local article metadata search instead.'']
              @ concat (map (coverage_parts (tech_index_data E)) (take 2 (mentioned_tech q)))
              @ [discovery_note])"
  using assms fallback_no_marker [OF assms(3)]
  by (simp add: discover_articles_def search_articles_def Let_def)

lemma hello_no_keywords: "mentioned_tech (lit ''hello'') = []"
  by (simp add: mentioned_tech_def tech_keywords_def lit_def lower_def lower_cp_def
      sublist_Cons_right)

theorem discovery_shows_fallback_witness:
  "lit ''hello'' \<noteq> []
   \<and> retrieve (failing_env (lit ''timeout'')) (lit ''hello'') 3 = Inl (lit ''timeout'')
   \<and> \<not> sublist (lit ''No relevant articles found'') (lit ''timeout'')
   \<and> snd (discover_articles (failing_env (lit ''timeout'')) (lit ''hello'')) =
       join nl
         [glyph_magnifier @ lit '' **Search Results:**'',
          lit ''LlamaCloud search unavailable ('' @ lit ''timeout''
            @ lit ''). Using local article metadata search instead.'',
          discovery_note]"
proof -
  have ne: "lit ''hello'' \<noteq> []"
    by (simp add: lit_def)
  have r: "retrieve (failing_env (lit ''timeout'')) (lit ''hello'') 3 = Inl (lit ''timeout'')"
    by (simp add: failing_env_def)
  have m: "\<not> sublist (lit ''No relevant articles found'') (lit ''timeout'')"
    by (simp add: lit_def sublist_Cons_right)
  show ?thesis
    using discovery_shows_fallback [OF ne r m] ne r m
    by (simp add: hello_no_keywords)
qed

lemma menu_no_heading:
  "\<not> sublist (lit ''Search Results'') (join nl (discovery_menu @ [discovery_note]))"
  by (simp add: discovery_menu_def discovery_note_def nl_def bullet_def glyph_books_def lit_def
      sublist_Cons_right)

lemma menu_no_fallback:
  "\<not> sublist (lit ''LlamaCloud search unavailable'')
       (join nl (discovery_menu @ [discovery_note]))"
  by (simp add: discovery_menu_def discovery_note_def nl_def bullet_def glyph_books_def lit_def
      sublist_Cons_right)

lemma marker_failure_output:
  "snd (discover_articles (failing_env (lit ''No relevant articles found'')) (lit ''hello''))
     = join nl (discovery_menu @ [discovery_note])"
  by (simp add: discover_articles_def search_articles_def Let_def failing_env_def
      hello_no_keywords discovery_menu_def) (simp add: lit_def)

text \<open>
  C9 as stated fails: the fallback string embeds the message of the exception.  When that
  message is "No relevant articles found" the guard suppresses the fallback string, and
  for the query "hello" the result is the help menu and the note, with neither the
  "Search Results" heading nor the fallback string.
\<close>

theorem discovery_fallback_counterexample:
  "lit ''hello'' \<noteq> []
   \<and> retrieve (failing_env (lit ''No relevant articles found'')) (lit ''hello'') 3
       = Inl (lit ''No relevant articles found'')
   \<and> snd (discover_articles (failing_env (lit ''No relevant articles found'')) (lit ''hello''))
       = join nl (discovery_menu @ [discovery_note])
   \<and> \<not> sublist (lit ''Search Results'')
         (snd (discover_articles (failing_env (lit ''No relevant articles found''))
                (lit ''hello'')))
   \<and> \<not> sublist (lit ''LlamaCloud search unavailable'')
         (snd (discover_articles (failing_env (lit ''No relevant articles found''))
                (lit ''hello'')))"
proof -
  have "lit ''hello'' \<noteq> []"
    by (simp add: lit_def)
  moreover have "retrieve (failing_env (lit ''No relevant articles found'')) (lit ''hello'') 3
       = Inl (lit ''No relevant articles found'')"
    by (simp add: failing_env_def)
  ultimately show ?thesis
    using menu_no_heading menu_no_fallback by (simp only: marker_failure_output simp_thms)
qed
subsection \<open>HTTP endpoint\<close>

lemma lit_inject: "lit a = lit b \<longleftrightarrow> a = b"
  unfolding lit_def by (metis list.inj_map_strong of_char_eq_iff)

lemma lit_append: "lit (a @ b) = lit a @ lit b"
  by (simp add: lit_def)

text \<open>
  C5 (amended): a request without a mode is the request with mode "discovery", and the
  prompt forwarded to the query engine is the discovery instruction followed by the
  query; for a mode string that is none of the three literals the forwarded prompt is
  the query alone, with no instruction in front.
\<close>

theorem chat_mode_default:
  "chat query_engine (parse_request q None)
     = chat query_engine (parse_request q (Some (lit ''discovery'')))
   \<and> fst (chat query_engine (parse_request q None)) =
       lit ''You are a discovery agent. Provide brief summaries and teasers about articles. Query: '' @ q
   \<and> (m \<noteq> lit ''discovery'' \<and> m \<noteq> lit ''tech-explorer'' \<and> m \<noteq> lit ''analytics'' \<longrightarrow>
        fst (chat query_engine (parse_request q (Some m))) = q)"
  by (simp add: chat_def parse_request_def mode_prompt_def get_or_def Let_def)

theorem chat_mode_default_witness:
  "lit ''foo'' \<noteq> lit ''discovery'' \<and> lit ''foo'' \<noteq> lit ''tech-explorer''
   \<and> lit ''foo'' \<noteq> lit ''analytics''
   \<and> chat echo_engine (parse_request (lit ''hi'') (Some (lit ''foo'')))
       = (lit ''hi'', Success (lit ''hi'') (lit ''foo''))"
  using chat_mode_default [of echo_engine "lit ''hi''" "lit ''foo''"]
  by (simp add: lit_inject chat_def echo_engine_def parse_request_def get_or_def Let_def)

text \<open>
  C5 as stated fails: with the mode "foo" and the query "hi" the forwarded prompt is "hi",
  not the discovery instruction followed by "hi", and the response differs from the one
  of the default mode.
\<close>

theorem chat_unknown_mode_counterexample:
  "fst (chat echo_engine (parse_request (lit ''hi'') (Some (lit ''foo''))))
     \<noteq> lit ''You are a discovery agent. Provide brief summaries and teasers about articles. Query: '' @ lit ''hi''
   \<and> chat echo_engine (parse_request (lit ''hi'') (Some (lit ''foo'')))
     \<noteq> chat echo_engine (parse_request (lit ''hi'') None)"
  by (simp add: chat_def echo_engine_def parse_request_def get_or_def mode_prompt_def lit_inject
      lit_append [symmetric] Let_def)

end
